theory Spec2Isabelle
  imports Complex_Main "HOL-Library.AList"
begin

section \<open>Python values, dictionaries and exceptions\<close>

text \<open>
  A float tensor of any rank, as nested lists. An entry is the real number the float
  stands for; the arithmetic of torch on tensors is a collaborator (below), so nothing
  is fixed here about how it rounds.
\<close>

datatype tensor = Scalar real | Tensor "tensor list"

text \<open>
  The Python objects that flow through the pipeline. A dictionary is an association list
  in insertion order, so that \<open>row.keys()\<close> is \<open>map fst row\<close>.
\<close>

datatype pyval =
    PyNone
  | PyBool bool
  | PyInt int
  | PyFloat real
  | PyStr string
  | PyIds "nat list"
  | PyTensor tensor
  | PyTuple "pyval list"
  | PyDict "(string \<times> pyval) list"

type_synonym pydict = "(string \<times> pyval) list"

datatype exn =
    ValueError string
  | KeyError string
  | IndexError
  | TypeError
  | Failure string

text \<open>
  Sequencing of steps that may raise: the first exception ends the computation.
\<close>

definition and_then :: "exn + 'a \<Rightarrow> ('a \<Rightarrow> exn + 'b) \<Rightarrow> exn + 'b" where
  "and_then m f = (case m of Inl e \<Rightarrow> Inl e | Inr x \<Rightarrow> f x)"

text \<open>\<open>shape t\<close> is \<open>t.shape\<close> of a rectangular tensor; its length is the rank.\<close>

fun shape :: "tensor \<Rightarrow> nat list" where
  "shape (Scalar w) = []"
| "shape (Tensor []) = [0]"
| "shape (Tensor (t # ts)) = Suc (length ts) # shape t"

text \<open>\<open>d[k]\<close>: a missing key raises KeyError.\<close>

definition getitem :: "pydict \<Rightarrow> string \<Rightarrow> exn + pyval" where
  "getitem d k = (case map_of d k of None \<Rightarrow> Inl (KeyError k) | Some v \<Rightarrow> Inr v)"

text \<open>\<open>d.get(k, default)\<close>.\<close>

definition dict_get :: "pydict \<Rightarrow> string \<Rightarrow> pyval \<Rightarrow> pyval" where
  "dict_get d k dflt = (case map_of d k of None \<Rightarrow> dflt | Some v \<Rightarrow> v)"

text \<open>\<open>v[k]\<close> on an arbitrary object with a string key.\<close>

fun subscript :: "pyval \<Rightarrow> string \<Rightarrow> exn + pyval" where
  "subscript (PyDict d) k = getitem d k"
| "subscript v k = Inl TypeError"

text \<open>\<open>xs[i]\<close> with \<open>0 \<le> i\<close>: out of range raises IndexError.\<close>

definition nth_checked :: "'a list \<Rightarrow> nat \<Rightarrow> exn + 'a" where
  "nth_checked xs i = (if i < length xs then Inr (xs ! i) else Inl IndexError)"

text \<open>A comprehension or loop over a list whose body may raise: the first exception wins.\<close>

fun traverse :: "('a \<Rightarrow> exn + 'b) \<Rightarrow> 'a list \<Rightarrow> exn + 'b list" where
  "traverse f [] = Inr []"
| "traverse f (x # xs) =
     and_then (f x) (\<lambda>y. and_then (traverse f xs) (\<lambda>ys. Inr (y # ys)))"

section \<open>The external collaborators\<close>

text \<open>
  The tokenizer returns a padded batch of token ids, a tensor of shape
  \<open>[batch, width]\<close>.
\<close>

record encoding =
  input_ids :: "nat list list"
  width :: nat

text \<open>The keyword arguments of \<open>model.generate\<close>.\<close>

record generate_kwargs =
  kw_input_ids :: "nat list list"
  max_length :: nat
  do_sample :: bool
  return_dict_in_generate :: bool
  output_scores :: bool
  output_attentions :: bool

text \<open>
  What \<open>model.generate\<close> returns: \<open>sequences\<close>, \<open>scores\<close>, and \<open>attentions\<close>
  (\<open>None\<close> when the object has no such attribute).
\<close>

record generate_output =
  sequences :: "nat list list"
  out_scores :: pyval
  out_attentions :: "pyval option"

text \<open>A loaded model with its tokenizer.\<close>

record backend =
  tokenizer :: "pyval list \<Rightarrow> exn + encoding"
  generate :: "generate_kwargs \<Rightarrow> exn + generate_output"
  batch_decode :: "nat list list \<Rightarrow> exn + string list"

text \<open>
  The modules the two source files import and the configuration constant they read.
  Every call may raise. \<open>torch_clamp_min t m\<close> is \<open>torch.clamp(t, min=m)\<close>,
  \<open>torch_radd x t\<close> is \<open>x + t\<close> and \<open>torch_log t\<close> is \<open>torch.log(t)\<close>.
  \<open>gen_compute_uncertainty_scores\<close> is
  \<open>compute_uncertainty_scores\<close> as \<open>models/generator.py\<close> calls it (two
  dictionaries and a list of methods); \<open>compute_uncertainty_scores\<close> is the same
  function as \<open>main_pipeline.py\<close> calls it (likelihoods and one method).
\<close>

record collaborators =
  DATASET_PATH :: string
  load_sampleqa_dataset :: "exn + pydict list"
  load_sciq_dataset :: "string \<Rightarrow> string \<Rightarrow> exn + pydict list"
  load_coqa_dataset :: "exn + pydict list"
  load_triviaqa_dataset :: "string \<Rightarrow> exn + pydict list"
  from_pretrained :: "string \<Rightarrow> exn + backend"
  py_str :: "pyval \<Rightarrow> string"
  compute_likelihoods :: "pydict \<Rightarrow> exn + pyval"
  compute_uncertainty_scores :: "pyval \<Rightarrow> string \<Rightarrow> exn + pyval"
  evaluate_response :: "pydict \<Rightarrow> pydict \<Rightarrow> exn + pyval"
  compute_similarity :: "pydict \<Rightarrow> string \<Rightarrow> exn + pyval"
  gen_compute_uncertainty_scores :: "pydict \<Rightarrow> pydict \<Rightarrow> string list \<Rightarrow> exn + pyval"
  torch_clamp_min :: "tensor \<Rightarrow> real \<Rightarrow> tensor"
  torch_radd :: "real \<Rightarrow> tensor \<Rightarrow> tensor"
  torch_log :: "tensor \<Rightarrow> tensor"

section \<open>models/generator.py\<close>

type_synonym model_cache = "(string \<times> backend) list"

text \<open>
  \<open>load_model_and_tokenizer\<close>: the process-wide cache is passed in and returned.
\<close>

definition load_model_and_tokenizer ::
  "collaborators \<Rightarrow> model_cache \<Rightarrow> string \<Rightarrow> exn + (backend \<times> model_cache)" where
  "load_model_and_tokenizer c cache model_name =
     (case map_of cache model_name of
        Some be \<Rightarrow> Inr (be, cache)
      | None \<Rightarrow>
          and_then (from_pretrained c model_name)
            (\<lambda>be. Inr (be, AList.update model_name be cache)))"

text \<open>
  \<open>sample.get("prompt", f"Question: {sample['question']} Answer:")\<close>: the default is
  evaluated first, so a sample without a question raises KeyError.
\<close>

definition make_prompt :: "collaborators \<Rightarrow> pydict \<Rightarrow> exn + pyval" where
  "make_prompt c sample =
     and_then (getitem sample ''question'') (\<lambda>q.
       Inr (dict_get sample ''prompt'' (PyStr (''Question: '' @ py_str c q @ '' Answer:''))))"

definition generation_kwargs :: "encoding \<Rightarrow> bool \<Rightarrow> bool \<Rightarrow> generate_kwargs" where
  "generation_kwargs encoded return_logits return_attentions =
     \<lparr> kw_input_ids = input_ids encoded,
       max_length = width encoded + 64,
       do_sample = False,
       return_dict_in_generate = True,
       output_scores = return_logits,
       output_attentions = return_attentions \<rparr>"

text \<open>\<open>torch.log(1 + torch.clamp(attention, min=1e-10))\<close>.\<close>

definition clamp_log :: "collaborators \<Rightarrow> tensor \<Rightarrow> tensor" where
  "clamp_log c attention = torch_log c (torch_radd c 1 (torch_clamp_min c attention (1 / 10 ^ 10)))"

text \<open>
  The body of the loop over \<open>attentions\<close>: a tensor is transformed as it is; of
  anything else the element \<open>[0]\<close> is taken and transformed.
\<close>

fun log_attention_of :: "collaborators \<Rightarrow> pyval \<Rightarrow> exn + pyval" where
  "log_attention_of c (PyTensor t) = Inr (PyTensor (clamp_log c t))"
| "log_attention_of c (PyTuple []) = Inl IndexError"
| "log_attention_of c (PyTuple (PyTensor t # rest)) = Inr (PyTensor (clamp_log c t))"
| "log_attention_of c v = Inl TypeError"

text \<open>Iterating \<open>outputs.attentions\<close>: only a tuple is iterable here.\<close>

fun log_attentions_of :: "collaborators \<Rightarrow> pyval \<Rightarrow> exn + pyval" where
  "log_attentions_of c (PyTuple atts) =
     and_then (traverse (log_attention_of c) atts) (\<lambda>las. Inr (PyTuple las))"
| "log_attentions_of c v = Inl TypeError"

text \<open>\<open>if uncertainty_methods:\<close> holds for a non-empty list.\<close>

fun truthy_methods :: "string list option \<Rightarrow> bool" where
  "truthy_methods None = False"
| "truthy_methods (Some ms) = (ms \<noteq> [])"

text \<open>One iteration of \<open>for i, sample in enumerate(batch)\<close>.\<close>

definition make_item ::
  "collaborators \<Rightarrow> encoding \<Rightarrow> generate_output \<Rightarrow> string list \<Rightarrow> pyval list \<Rightarrow>
   bool \<Rightarrow> bool \<Rightarrow> string list option \<Rightarrow> nat \<times> pydict \<Rightarrow> exn + pydict" where
  "make_item c encoded outputs decoded prompts return_logits return_attentions
       uncertainty_methods p =
     and_then (nth_checked (input_ids encoded) (fst p)) (\<lambda>ids.
     and_then (nth_checked (sequences outputs) (fst p)) (\<lambda>gen.
     and_then (nth_checked decoded (fst p)) (\<lambda>text.
     and_then
       (let item0 = [(''input_ids'', PyIds ids),
                     (''generated_ids'', PyIds gen),
                     (''generated_text'', PyStr text)];
            item1 = (if return_logits then AList.update ''scores'' (out_scores outputs) item0
                     else item0)
        in if return_attentions \<and> out_attentions outputs \<noteq> None
           then and_then (log_attentions_of c (the (out_attentions outputs)))
                  (\<lambda>la. Inr (AList.update ''log_attentions'' la item1))
           else Inr item1) (\<lambda>item2.
     and_then (nth_checked prompts (fst p)) (\<lambda>prompt.
       (let likelihood_dict =
              [(''token_log_likelihoods'',
                  dict_get (snd p) ''token_log_likelihoods'' (PyTensor (Tensor []))),
               (''entropy_per_token'',
                  dict_get (snd p) ''entropy_per_token'' (PyTensor (Tensor []))),
               (''logits'', if return_logits then out_scores outputs else PyNone)];
            model_output =
              [(''generated_text'', PyStr text),
               (''input_text'', prompt),
               (''log_attentions'', dict_get item2 ''log_attentions'' PyNone)]
        in if truthy_methods uncertainty_methods
           then (case gen_compute_uncertainty_scores c likelihood_dict model_output
                        (the uncertainty_methods) of
                   Inl e \<Rightarrow> Inr (AList.update ''uncertainty_scores'' (PyDict []) item2)
                 | Inr scores \<Rightarrow> Inr (AList.update ''uncertainty_scores'' scores item2))
           else Inr item2))))))"

text \<open>
  \<open>run_generation\<close>. The prompts are built, encoded, one call of \<open>model.generate\<close>
  is made for the whole batch, the continuations \<open>generated[:, width:]\<close> are decoded,
  and one item per sample is assembled.
\<close>

definition run_generation ::
  "collaborators \<Rightarrow> model_cache \<Rightarrow> pydict list \<Rightarrow> string \<Rightarrow> bool \<Rightarrow> bool \<Rightarrow>
   string list option \<Rightarrow> (exn + pydict list) \<times> model_cache" where
  "run_generation c cache batch model_name return_logits return_attentions uncertainty_methods =
     (case load_model_and_tokenizer c cache model_name of
        Inl e \<Rightarrow> (Inl e, cache)
      | Inr loaded \<Rightarrow>
          (and_then (traverse (make_prompt c) batch) (\<lambda>prompts.
           and_then (tokenizer (fst loaded) prompts) (\<lambda>encoded.
           and_then (generate (fst loaded)
                       (generation_kwargs encoded return_logits return_attentions)) (\<lambda>outputs.
           and_then (batch_decode (fst loaded)
                       (map (drop (width encoded)) (sequences outputs))) (\<lambda>decoded.
           traverse (make_item c encoded outputs decoded prompts return_logits
                       return_attentions uncertainty_methods)
             (enumerate 0 batch))))),
           snd loaded))"

section \<open>main_pipeline.py\<close>

record args =
  model :: string
  uncertainty_method :: string
  similarity_method :: string
  sbert_model :: string
  batch_size :: int
  dataset :: string

subsection \<open>The destination file\<close>

text \<open>
  A line of the CSV file is what \<open>writeheader\<close> or \<open>writerow\<close> wrote; the rendering
  of a cell as text is not modelled. A file system maps a path to the lines of the file.
  Opening and writing are taken to succeed.
\<close>

datatype csv_line = Header "string list" | Record "pyval list"

type_synonym filesystem = "string \<Rightarrow> csv_line list option"

record file_handle =
  h_path :: string
  h_buffer :: "csv_line list"

text \<open>\<open>open(path, mode='a')\<close> creates the file when it does not exist.\<close>

definition open_append :: "filesystem \<Rightarrow> string \<Rightarrow> filesystem \<times> file_handle" where
  "open_append fs path =
     ((case fs path of None \<Rightarrow> fs(path \<mapsto> []) | Some content \<Rightarrow> fs),
      \<lparr> h_path = path, h_buffer = [] \<rparr>)"

definition write_line :: "file_handle \<Rightarrow> csv_line \<Rightarrow> file_handle" where
  "write_line f l = f\<lparr> h_buffer := h_buffer f @ [l] \<rparr>"

text \<open>Leaving the \<open>with\<close> block closes the file: what was written is at its end.\<close>

definition close_file :: "filesystem \<Rightarrow> file_handle \<Rightarrow> filesystem" where
  "close_file fs f =
     fs(h_path f \<mapsto> (case fs (h_path f) of None \<Rightarrow> [] | Some content \<Rightarrow> content) @ h_buffer f)"

subsection \<open>The state of a run\<close>

text \<open>
  \<open>files\<close> and \<open>models\<close> outlive the call of \<open>main\<close>; \<open>results\<close> and
  \<open>header_written\<close> are its local variables. The variables \<open>outputs\<close> and
  \<open>output\<close> hold references to the items \<open>run_generation\<close> returned: each item
  gets a fresh address, \<open>outputs_ref\<close> is the list \<open>outputs\<close> is bound to (\<open>None\<close>
  when the name is unbound) and \<open>output_ref\<close> the item the loop variable is bound to.
  The last three fields observe the run: the calls of \<open>run_generation\<close> (batch index,
  batch, \<open>return_attentions\<close>), the items still referenced when each call is issued, and
  the largest number of items referenced at once.
\<close>

record state =
  files :: filesystem
  models :: model_cache
  results :: "pydict list"
  header_written :: bool
  outputs_ref :: "nat list option"
  output_ref :: "nat option"
  next_addr :: nat
  generation_calls :: "(nat \<times> pydict list \<times> bool) list"
  retained_at_generation :: "nat list list"
  peak_live :: nat

datatype outcome = Completed | Raised exn

definition process_start :: "filesystem \<Rightarrow> state" where
  "process_start fs =
     \<lparr> files = fs, models = [], results = [], header_written = False,
       outputs_ref = None, output_ref = None, next_addr = 0,
       generation_calls = [], retained_at_generation = [], peak_live = 0 \<rparr>"

text \<open>The items reachable from \<open>outputs\<close> and \<open>output\<close>.\<close>

definition live :: "state \<Rightarrow> nat list" where
  "live s =
     remdups ((case outputs_ref s of None \<Rightarrow> [] | Some addrs \<Rightarrow> addrs) @
              (case output_ref s of None \<Rightarrow> [] | Some addr \<Rightarrow> [addr]))"

definition note_live :: "state \<Rightarrow> state" where
  "note_live s = s\<lparr> peak_live := max (peak_live s) (length (live s)) \<rparr>"

subsection \<open>batchify and the dataset\<close>

text \<open>
  \<open>range(0, n, step)\<close>: a zero step raises ValueError, a negative one gives nothing.
\<close>

definition range_step :: "nat \<Rightarrow> int \<Rightarrow> exn + nat list" where
  "range_step n step =
     (if step = 0 then Inl (ValueError ''range() arg 3 must not be zero'')
      else if step < 0 then Inr []
      else Inr (map (\<lambda>k. k * nat step) [0 ..< (n + nat step - 1) div nat step]))"

text \<open>\<open>data[i:i + batch_size]\<close> for the \<open>i\<close> of the range.\<close>

definition batchify :: "'a list \<Rightarrow> int \<Rightarrow> exn + 'a list list" where
  "batchify data bsize =
     and_then (range_step (length data) bsize)
       (\<lambda>starts. Inr (map (\<lambda>i. take (nat bsize) (drop i data)) starts))"

definition load_dataset :: "collaborators \<Rightarrow> args \<Rightarrow> exn + pydict list" where
  "load_dataset c a =
     (if dataset a = ''sampleqa'' then load_sampleqa_dataset c
      else if dataset a = ''sciq'' then load_sciq_dataset c (DATASET_PATH c) (model a)
      else if dataset a = ''coqa'' then load_coqa_dataset c
      else if dataset a = ''triviaqa'' then load_triviaqa_dataset c ''validation''
      else Inl (ValueError (''Unsupported dataset: '' @ dataset a)))"

subsection \<open>The body of the loop over the samples of a batch\<close>

text \<open>Steps 2 to 5: the scores of one sample and its row.\<close>

definition score_sample ::
  "collaborators \<Rightarrow> args \<Rightarrow> nat \<Rightarrow> nat \<Rightarrow> pydict \<Rightarrow> pydict \<Rightarrow> exn + pydict" where
  "score_sample c a batch_idx i sample output =
     and_then (compute_likelihoods c output) (\<lambda>likelihoods.
     and_then (compute_uncertainty_scores c likelihoods (uncertainty_method a)) (\<lambda>uncertainty.
     and_then (evaluate_response c sample output) (\<lambda>correctness.
     and_then (if similarity_method a = ''attention''
               then compute_similarity c output ''attention''
               else Inr PyNone) (\<lambda>similarity_score.
     and_then (getitem sample ''question'') (\<lambda>question.
     and_then (getitem output ''generated_text'') (\<lambda>generated_text.
     and_then (subscript uncertainty ''score'') (\<lambda>score.
       Inr [(''id'', PyInt (int batch_idx * batch_size a + int i)),
            (''question'', question),
            (''generated_answer'', generated_text),
            (''uncertainty'', score),
            (''correct'', correctness),
            (''similarity_score'',
               if similarity_score \<noteq> PyNone then similarity_score else PyStr ''NA'')])))))))"

definition save_path :: "args \<Rightarrow> string" where
  "save_path a = ''results_'' @ dataset a @ ''.csv''"

text \<open>Step 6: the file is opened, the header and the row are written, the file is closed.\<close>

definition append_row :: "args \<Rightarrow> pydict \<Rightarrow> state \<Rightarrow> state" where
  "append_row a row s =
     (let opened = open_append (files s) (save_path a);
          f1 = (if \<not> header_written s then write_line (snd opened) (Header (map fst row))
                else snd opened);
          f2 = write_line f1 (Record (map snd row))
      in s\<lparr> files := close_file (fst opened) f2, header_written := True \<rparr>)"

text \<open>
  \<open>for i, (sample, output) in enumerate(zip(batch, outputs))\<close>; every output comes with
  its address. An exception of the body leaves the loop and the function.
\<close>

fun process_samples ::
  "collaborators \<Rightarrow> args \<Rightarrow> nat \<Rightarrow> (nat \<times> pydict \<times> nat \<times> pydict) list \<Rightarrow> state \<Rightarrow>
   outcome \<times> state" where
  "process_samples c a batch_idx [] s = (Completed, s)"
| "process_samples c a batch_idx (p # rest) s =
     (let s0 = note_live (s\<lparr> output_ref := Some (fst (snd (snd p))) \<rparr>)
      in case score_sample c a batch_idx (fst p) (fst (snd p)) (snd (snd (snd p))) of
           Inl e \<Rightarrow> (Raised e, s0)
         | Inr row \<Rightarrow>
             process_samples c a batch_idx rest
               (append_row a row (s0\<lparr> results := results s0 @ [row] \<rparr>)))"

subsection \<open>The loop over the batches, and main\<close>

text \<open>
  The body of the loop over the batches: \<open>run_generation\<close> is called once for the
  batch, the samples are processed, and \<open>del outputs, batch\<close> unbinds \<open>outputs\<close>.
  The call is recorded when it is issued, with the items still referenced then.
\<close>

definition issue_generation :: "nat \<times> pydict list \<Rightarrow> bool \<Rightarrow> state \<Rightarrow> state" where
  "issue_generation b return_attentions s =
     s\<lparr> generation_calls := generation_calls s @ [(fst b, snd b, return_attentions)],
        retained_at_generation := retained_at_generation s @ [live s] \<rparr>"

text \<open>\<open>outputs = run_generation(...)\<close>: the returned items get fresh addresses.\<close>

definition bind_outputs :: "model_cache \<Rightarrow> nat \<Rightarrow> state \<Rightarrow> state" where
  "bind_outputs cache' n s =
     note_live (s\<lparr> models := cache',
                  outputs_ref := Some [next_addr s ..< next_addr s + n],
                  next_addr := next_addr s + n \<rparr>)"

definition process_batch ::
  "collaborators \<Rightarrow> args \<Rightarrow> nat \<times> pydict list \<Rightarrow> state \<Rightarrow> outcome \<times> state" where
  "process_batch c a b s =
     (let return_attentions = (similarity_method a = ''attention'');
          s1 = issue_generation b return_attentions s;
          r = run_generation c (models s1) (snd b) (model a) True return_attentions None
      in case fst r of
           Inl e \<Rightarrow> (Raised e, s1\<lparr> models := snd r \<rparr>)
         | Inr outputs \<Rightarrow>
             (let s2 = bind_outputs (snd r) (length outputs) s1;
                  r2 = process_samples c a (fst b)
                         (enumerate 0
                            (zip (snd b)
                               (zip [next_addr s1 ..< next_addr s1 + length outputs] outputs)))
                         s2
              in case fst r2 of
                   Raised e \<Rightarrow> r2
                 | Completed \<Rightarrow> (Completed, (snd r2)\<lparr> outputs_ref := None \<rparr>)))"

text \<open>
  \<open>for batch_idx, batch in enumerate(batchify(...))\<close>: an exception in a batch ends the
  run.
\<close>

fun process_batches ::
  "collaborators \<Rightarrow> args \<Rightarrow> (nat \<times> pydict list) list \<Rightarrow> state \<Rightarrow> outcome \<times> state" where
  "process_batches c a [] s = (Completed, s)"
| "process_batches c a (b # rest) s =
     (let r = process_batch c a b s
      in case fst r of
           Raised e \<Rightarrow> r
         | Completed \<Rightarrow> process_batches c a rest (snd r))"

definition main :: "collaborators \<Rightarrow> args \<Rightarrow> state \<Rightarrow> outcome \<times> state" where
  "main c a s =
     (case load_dataset c a of
        Inl e \<Rightarrow> (Raised e, s)
      | Inr data \<Rightarrow>
          (let s1 = s\<lparr> results := [], header_written := False \<rparr>
           in case batchify data (batch_size a) of
                Inl e \<Rightarrow> (Raised e, s1)
              | Inr batches \<Rightarrow> process_batches c a (enumerate 0 batches) s1))"

section \<open>Observations of a run\<close>

text \<open>The lines of a file; a file that does not exist has none.\<close>

definition file_lines :: "filesystem \<Rightarrow> string \<Rightarrow> csv_line list" where
  "file_lines fs path = (case fs path of None \<Rightarrow> [] | Some content \<Rightarrow> content)"

text \<open>
  What appending the rows one after the other adds to the file, when \<open>hw\<close> is the value
  of \<open>header_written\<close> before the first of them.
\<close>

fun written :: "bool \<Rightarrow> pydict list \<Rightarrow> csv_line list" where
  "written hw [] = []"
| "written hw (row # rows) =
     (if hw then [] else [Header (map fst row)]) @ Record (map snd row) # written True rows"

definition row_id :: "pydict \<Rightarrow> pyval option" where
  "row_id row = map_of row ''id''"



section \<open>A small configuration\<close>

text \<open>
  Collaborators that can be run: a dataset of three questions, a tokenizer that encodes
  every prompt as two tokens, a model that generates one token and gives one score tensor
  of shape \<open>[batch, 2]\<close>, scorers that succeed, and a Similarity Scorer that always
  raises. The arguments are the defaults of the command line, with batch size 2.
\<close>

definition example_sample :: "string \<Rightarrow> pydict" where
  "example_sample q = [(''question'', PyStr q)]"

definition example_backend :: backend where
  "example_backend =
     \<lparr> tokenizer = (\<lambda>prompts. Inr \<lparr> input_ids = map (\<lambda>p. [1, 2]) prompts, width = 2 \<rparr>),
       generate = (\<lambda>kw. Inr
         \<lparr> sequences = map (\<lambda>r. r @ [7]) (kw_input_ids kw),
           out_scores = PyTuple [PyTensor (Tensor
             (map (\<lambda>r. Tensor [Scalar 0, Scalar 1]) (kw_input_ids kw)))],
           out_attentions = Some (if output_attentions kw then PyTuple [] else PyNone) \<rparr>),
       batch_decode = (\<lambda>rows. Inr (map (\<lambda>r. ''yes'') rows)) \<rparr>"

definition example_collaborators :: collaborators where
  "example_collaborators =
     \<lparr> DATASET_PATH = ''data'',
       load_sampleqa_dataset =
         Inr [example_sample ''q0'', example_sample ''q1'', example_sample ''q2''],
       load_sciq_dataset = (\<lambda>path name. Inr []),
       load_coqa_dataset = Inr [],
       load_triviaqa_dataset = (\<lambda>split. Inr []),
       from_pretrained = (\<lambda>name. Inr example_backend),
       py_str = (\<lambda>v. case v of PyStr s \<Rightarrow> s | _ \<Rightarrow> []),
       compute_likelihoods = (\<lambda>out. Inr (PyDict [])),
       compute_uncertainty_scores = (\<lambda>l m. Inr (PyDict [(''score'', PyFloat 1)])),
       evaluate_response = (\<lambda>sample out. Inr (PyBool True)),
       compute_similarity = (\<lambda>out m. Inl (Failure ''similarity'')),
       gen_compute_uncertainty_scores = (\<lambda>l m ms. Inr (PyDict [])),
       torch_clamp_min = (\<lambda>t m. t),
       torch_radd = (\<lambda>x t. t),
       torch_log = (\<lambda>t. t) \<rparr>"

definition example_args :: args where
  "example_args =
     \<lparr> model = ''m'', uncertainty_method = ''lastde'', similarity_method = ''sbert'',
       sbert_model = ''all-MiniLM-L6-v2'', batch_size = 2, dataset = ''sampleqa'' \<rparr>"

text \<open>The records of a file, without its header lines.\<close>

definition records_of :: "csv_line list \<Rightarrow> pyval list list" where
  "records_of ls =
     concat (map (\<lambda>l. case l of Header names \<Rightarrow> [] | Record cells \<Rightarrow> [cells]) ls)"


section \<open>Exceptions and the loops\<close>

lemma and_then_Inl [simp]: "and_then (Inl e) f = Inl e"
  by (simp add: and_then_def)

lemma and_then_Inr [simp]: "and_then (Inr x) f = f x"
  by (simp add: and_then_def)

lemma and_then_eq_Inr: "and_then m f = Inr y \<longleftrightarrow> (\<exists>x. m = Inr x \<and> f x = Inr y)"
  by (cases m) simp_all

lemma traverse_length: "traverse f xs = Inr ys \<Longrightarrow> length ys = length xs"
  by (induction xs arbitrary: ys) (auto simp: and_then_eq_Inr)

lemma run_generation_length:
  "fst (run_generation c cache batch m rl ra um) = Inr outs \<Longrightarrow> length outs = length batch"
  by (auto simp: run_generation_def and_then_eq_Inr split: sum.splits dest!: traverse_length)

lemma written_append:
  "written hw (rows @ rows') = written hw rows @ written (hw \<or> rows \<noteq> []) rows'"
  by (induction rows arbitrary: hw) auto

lemma append_row_lines:
  "file_lines (files (append_row a row s)) (save_path a) =
     file_lines (files s) (save_path a) @ written (header_written s) [row]"
  by (simp add: append_row_def open_append_def close_file_def write_line_def file_lines_def Let_def
      split: option.splits)

lemma append_row_other:
  "p \<noteq> save_path a \<Longrightarrow> files (append_row a row s) p = files s p"
  by (simp add: append_row_def open_append_def close_file_def write_line_def Let_def
      split: option.splits)

lemma append_row_fields [simp]:
  "header_written (append_row a row s) = True"
  "results (append_row a row s) = results s"
  "models (append_row a row s) = models s"
  "outputs_ref (append_row a row s) = outputs_ref s"
  "output_ref (append_row a row s) = output_ref s"
  "next_addr (append_row a row s) = next_addr s"
  "generation_calls (append_row a row s) = generation_calls s"
  "retained_at_generation (append_row a row s) = retained_at_generation s"
  "peak_live (append_row a row s) = peak_live s"
  by (simp_all add: append_row_def Let_def)

lemma note_live_fields [simp]:
  "files (note_live s) = files s"
  "header_written (note_live s) = header_written s"
  "results (note_live s) = results s"
  "models (note_live s) = models s"
  "outputs_ref (note_live s) = outputs_ref s"
  "output_ref (note_live s) = output_ref s"
  "next_addr (note_live s) = next_addr s"
  "generation_calls (note_live s) = generation_calls s"
  "retained_at_generation (note_live s) = retained_at_generation s"
  by (simp_all add: note_live_def)

lemma process_samples_rows:
  "process_samples c a k ps s = (oc, s') \<Longrightarrow>
   \<exists>rows. results s' = results s @ rows
     \<and> file_lines (files s') (save_path a) =
         file_lines (files s) (save_path a) @ written (header_written s) rows
     \<and> header_written s' = (header_written s \<or> rows \<noteq> [])
     \<and> length rows \<le> length ps
     \<and> (oc = Completed \<longrightarrow> length rows = length ps)
     \<and> (\<forall>j < length rows. score_sample c a k (fst (ps ! j)) (fst (snd (ps ! j))) (snd (snd (snd (ps ! j)))) = Inr (rows ! j))
     \<and> (\<forall>e. oc = Raised e \<longrightarrow> length rows < length ps \<and> score_sample c a k (fst (ps ! length rows)) (fst (snd (ps ! length rows))) (snd (snd (snd (ps ! length rows)))) = Inl e)"
proof (induction ps arbitrary: s)
  case Nil
  then show ?case by auto
next
  case (Cons p ps)
  show ?case
  proof (cases "score_sample c a k (fst p) (fst (snd p)) (snd (snd (snd p)))")
    case (Inl e)
    with Cons.prems show ?thesis
      by (auto simp: Let_def)
  next
    case (Inr row)
    let ?s1 = "append_row a row ((note_live (s\<lparr>output_ref := Some (fst (snd (snd p)))\<rparr>))\<lparr>results := results (note_live (s\<lparr>output_ref := Some (fst (snd (snd p)))\<rparr>)) @ [row]\<rparr>)"
    from Cons.prems Inr have run: "process_samples c a k ps ?s1 = (oc, s')"
      by (simp add: Let_def)
    from Cons.IH[OF run] obtain rows where r:
      "results s' = results ?s1 @ rows"
      "file_lines (files s') (save_path a) = file_lines (files ?s1) (save_path a) @ written (header_written ?s1) rows"
      "header_written s' = (header_written ?s1 \<or> rows \<noteq> [])"
      "length rows \<le> length ps"
      "oc = Completed \<longrightarrow> length rows = length ps"
      "\<forall>j < length rows. score_sample c a k (fst (ps ! j)) (fst (snd (ps ! j))) (snd (snd (snd (ps ! j)))) = Inr (rows ! j)"
      "\<forall>e. oc = Raised e \<longrightarrow> length rows < length ps \<and> score_sample c a k (fst (ps ! length rows)) (fst (snd (ps ! length rows))) (snd (snd (snd (ps ! length rows)))) = Inl e"
      by blast
    have "results s' = results s @ (row # rows)" using r(1) by simp
    moreover have "file_lines (files s') (save_path a) =
         file_lines (files s) (save_path a) @ written (header_written s) (row # rows)"
      using r(2) by (simp add: append_row_lines)
    moreover have "header_written s' = (header_written s \<or> row # rows \<noteq> [])"
      using r(3) by simp
    moreover have "length (row # rows) \<le> length (p # ps)" using r(4) by simp
    moreover have "oc = Completed \<longrightarrow> length (row # rows) = length (p # ps)" using r(5) by simp
    moreover have "\<forall>j < length (row # rows). score_sample c a k (fst ((p # ps) ! j)) (fst (snd ((p # ps) ! j))) (snd (snd (snd ((p # ps) ! j)))) = Inr ((row # rows) ! j)"
      using r(6) Inr by (auto simp: nth_Cons split: nat.splits)
    moreover have "\<forall>e. oc = Raised e \<longrightarrow> length (row # rows) < length (p # ps) \<and> score_sample c a k (fst ((p # ps) ! length (row # rows))) (fst (snd ((p # ps) ! length (row # rows)))) (snd (snd (snd ((p # ps) ! length (row # rows))))) = Inl e"
      using r(7) by simp
    ultimately show ?thesis by blast
  qed
qed

lemma score_sample_id:
  "score_sample c a k i sample out = Inr row \<Longrightarrow>
   row_id row = Some (PyInt (int k * batch_size a + int i))"
  by (auto simp: score_sample_def and_then_eq_Inr row_id_def)

lemma process_samples_ids:
  assumes "process_samples c a k (enumerate 0 xs) s = (oc, s')"
  shows "\<exists>rows. results s' = results s @ rows
     \<and> map row_id rows = map (\<lambda>j. Some (PyInt (int k * batch_size a + int j))) [0..<length rows]
     \<and> length rows \<le> length xs
     \<and> (oc = Completed \<longrightarrow> length rows = length xs)"
proof -
  from process_samples_rows[OF assms] obtain rows where r:
    "results s' = results s @ rows"
    "length rows \<le> length (enumerate 0 xs)"
    "oc = Completed \<longrightarrow> length rows = length (enumerate 0 xs)"
    "\<forall>j < length rows. score_sample c a k (fst (enumerate 0 xs ! j)) (fst (snd (enumerate 0 xs ! j)))
        (snd (snd (snd (enumerate 0 xs ! j)))) = Inr (rows ! j)"
    by blast
  have "\<forall>j < length rows. row_id (rows ! j) = Some (PyInt (int k * batch_size a + int j))"
  proof (intro allI impI)
    fix j assume j: "j < length rows"
    with r(2) have "j < length xs" by simp
    then have "fst (enumerate 0 xs ! j) = j" by (simp add: nth_enumerate_eq)
    moreover from r(4) j
    have "score_sample c a k (fst (enumerate 0 xs ! j)) (fst (snd (enumerate 0 xs ! j)))
        (snd (snd (snd (enumerate 0 xs ! j)))) = Inr (rows ! j)"
      by blast
    ultimately show "row_id (rows ! j) = Some (PyInt (int k * batch_size a + int j))"
      using score_sample_id[of c a k j _ _ "rows ! j"] by simp
  qed
  then have "map row_id rows = map (\<lambda>j. Some (PyInt (int k * batch_size a + int j))) [0..<length rows]"
    by (intro nth_equalityI) simp_all
  moreover from r(2,3) have "length rows \<le> length xs" "oc = Completed \<longrightarrow> length rows = length xs"
    by simp_all
  ultimately show ?thesis using r(1) by blast
qed



lemma issue_generation_fields [simp]:
  "files (issue_generation b ra s) = files s"
  "header_written (issue_generation b ra s) = header_written s"
  "results (issue_generation b ra s) = results s"
  "models (issue_generation b ra s) = models s"
  "outputs_ref (issue_generation b ra s) = outputs_ref s"
  "output_ref (issue_generation b ra s) = output_ref s"
  "next_addr (issue_generation b ra s) = next_addr s"
  "peak_live (issue_generation b ra s) = peak_live s"
  "generation_calls (issue_generation b ra s) = generation_calls s @ [(fst b, snd b, ra)]"
  "retained_at_generation (issue_generation b ra s) = retained_at_generation s @ [live s]"
  by (simp_all add: issue_generation_def)

lemma bind_outputs_fields [simp]:
  "files (bind_outputs m n s) = files s"
  "header_written (bind_outputs m n s) = header_written s"
  "results (bind_outputs m n s) = results s"
  "models (bind_outputs m n s) = m"
  "outputs_ref (bind_outputs m n s) = Some [next_addr s ..< next_addr s + n]"
  "output_ref (bind_outputs m n s) = output_ref s"
  "next_addr (bind_outputs m n s) = next_addr s + n"
  "generation_calls (bind_outputs m n s) = generation_calls s"
  "retained_at_generation (bind_outputs m n s) = retained_at_generation s"
  by (simp_all add: bind_outputs_def)

lemma process_samples_calls:
  "generation_calls (snd (process_samples c a k ps s)) = generation_calls s"
proof (induction ps arbitrary: s)
  case Nil
  show ?case by simp
next
  case (Cons p ps)
  show ?case
    by (cases "score_sample c a k (fst p) (fst (snd p)) (snd (snd (snd p)))")
       (simp_all add: Let_def Cons.IH)
qed

lemma process_batch_rows:
  assumes "process_batch c a (k, x) s = (oc, s')"
  shows "\<exists>rows. results s' = results s @ rows
     \<and> file_lines (files s') (save_path a) =
         file_lines (files s) (save_path a) @ written (header_written s) rows
     \<and> header_written s' = (header_written s \<or> rows \<noteq> [])
     \<and> map row_id rows = map (\<lambda>j. Some (PyInt (int k * batch_size a + int j))) [0..<length rows]
     \<and> length rows \<le> length x
     \<and> (oc = Completed \<longrightarrow> length rows = length x)"
proof -
  let ?ra = "similarity_method a = ''attention''"
  let ?s1 = "issue_generation (k, x) ?ra s"
  let ?r = "run_generation c (models ?s1) x (model a) True ?ra None"
  show ?thesis
  proof (cases "fst ?r")
    case (Inl e)
    with assms have "s' = ?s1\<lparr> models := snd ?r \<rparr>"
      by (simp add: process_batch_def Let_def)
    then have "results s' = results s @ []" "files s' = files s" "header_written s' = header_written s"
      by simp_all
    moreover from Inl assms have "oc = Raised e"
      by (simp add: process_batch_def Let_def)
    ultimately show ?thesis
      by (intro exI[of _ "[]"]) simp
  next
    case (Inr outs)
    then have lo: "length outs = length x"
      by (rule run_generation_length)
    let ?ps = "enumerate 0 (zip x (zip [next_addr ?s1 ..< next_addr ?s1 + length outs] outs))"
    let ?s2 = "bind_outputs (snd ?r) (length outs) ?s1"
    obtain oc2 s2' where r2: "process_samples c a k ?ps ?s2 = (oc2, s2')"
      by (cases "process_samples c a k ?ps ?s2")
    have lz: "length ?ps = length x" using lo by simp
    from process_samples_rows[OF r2] obtain rows where rows:
      "results s2' = results ?s2 @ rows"
      "file_lines (files s2') (save_path a) =
         file_lines (files ?s2) (save_path a) @ written (header_written ?s2) rows"
      "header_written s2' = (header_written ?s2 \<or> rows \<noteq> [])"
      "length rows \<le> length ?ps"
      "oc2 = Completed \<longrightarrow> length rows = length ?ps"
      by blast
    from process_samples_ids[OF r2] obtain rows' where rows':
      "results s2' = results ?s2 @ rows'"
      "map row_id rows' = map (\<lambda>j. Some (PyInt (int k * batch_size a + int j))) [0..<length rows']"
      by blast
    from rows(1) rows'(1) have same: "rows' = rows" by simp
    have pb: "process_batch c a (k, x) s =
        (case oc2 of Raised e \<Rightarrow> (oc2, s2') | Completed \<Rightarrow> (Completed, s2'\<lparr> outputs_ref := None \<rparr>))"
      using Inr r2 by (simp add: process_batch_def Let_def split: outcome.splits)
    have res: "oc = oc2 \<and> results s' = results s2' \<and> files s' = files s2' \<and>
      header_written s' = header_written s2'"
    proof (cases oc2)
      case Completed
      with pb assms show ?thesis by auto
    next
      case (Raised e)
      with pb assms show ?thesis by auto
    qed
    show ?thesis
      using rows rows'(2) same res lz by (intro exI[of _ rows]) simp
  qed
qed

lemma process_batches_step:
  "process_batches c a (b # rest) s =
     (case fst (process_batch c a b s) of
        Raised e \<Rightarrow> process_batch c a b s
      | Completed \<Rightarrow> process_batches c a rest (snd (process_batch c a b s)))"
  by (simp add: Let_def)

lemma process_batches_rows:
  assumes "process_batches c a bs s = (oc, s')"
  shows "\<exists>rows. results s' = results s @ rows
     \<and> file_lines (files s') (save_path a) =
         file_lines (files s) (save_path a) @ written (header_written s) rows
     \<and> header_written s' = (header_written s \<or> rows \<noteq> [])"
  using assms
proof (induction bs arbitrary: s)
  case Nil
  then have "s' = s" by simp
  then show ?case by (intro exI[of _ "[]"]) simp
next
  case (Cons b rest)
  obtain k x where b: "b = (k, x)" by (cases b)
  obtain oc1 s1 where pb: "process_batch c a (k, x) s = (oc1, s1)"
    by (cases "process_batch c a (k, x) s")
  from process_batch_rows[OF pb] obtain rows1 where r1:
    "results s1 = results s @ rows1"
    "file_lines (files s1) (save_path a) =
       file_lines (files s) (save_path a) @ written (header_written s) rows1"
    "header_written s1 = (header_written s \<or> rows1 \<noteq> [])"
    by blast
  show ?case
  proof (cases oc1)
    case (Raised e)
    with Cons.prems b pb have "s' = s1"
      by (simp add: process_batches_step del: process_batches.simps)
    with r1 show ?thesis by blast
  next
    case Completed
    with Cons.prems b pb have "process_batches c a rest s1 = (oc, s')"
      by (simp add: process_batches_step del: process_batches.simps)
    from Cons.IH[OF this] obtain rows2 where r2:
      "results s' = results s1 @ rows2"
      "file_lines (files s') (save_path a) =
         file_lines (files s1) (save_path a) @ written (header_written s1) rows2"
      "header_written s' = (header_written s1 \<or> rows2 \<noteq> [])"
      by blast
    have "results s' = results s @ (rows1 @ rows2)"
      using r1(1) r2(1) by simp
    moreover have "file_lines (files s') (save_path a) =
         file_lines (files s) (save_path a) @ written (header_written s) (rows1 @ rows2)"
      using r1(2,3) r2(2) by (simp add: written_append)
    moreover have "header_written s' = (header_written s \<or> rows1 @ rows2 \<noteq> [])"
      using r1(3) r2(3) by auto
    ultimately show ?thesis by blast
  qed
qed






lemma process_start_fields [simp]:
  "files (process_start fs) = fs"
  "results (process_start fs) = []"
  "header_written (process_start fs) = False"
  "generation_calls (process_start fs) = []"
  "process_start fs \<lparr> results := [], header_written := False \<rparr> = process_start fs"
  by (simp_all add: process_start_def)

lemma written_True: "written True rows = map (\<lambda>r. Record (map snd r)) rows"
  by (induction rows) simp_all

lemma written_False:
  "written False rows =
     (case rows of [] \<Rightarrow> [] | row # rest \<Rightarrow> Header (map fst row) # map (\<lambda>r. Record (map snd r)) rows)"
  by (cases rows) (simp_all add: written_True)

lemma main_rows:
  assumes "main c a (process_start fs) = (oc, s')"
  shows "file_lines (files s') (save_path a) =
           file_lines fs (save_path a) @ written False (results s')
     \<and> header_written s' = (results s' \<noteq> [])"
proof (cases "load_dataset c a")
  case (Inl e)
  with assms have "s' = process_start fs" by (simp add: main_def)
  then show ?thesis by simp
next
  case (Inr data)
  show ?thesis
  proof (cases "batchify data (batch_size a)")
    case (Inl e)
    with Inr assms have "s' = process_start fs" by (simp add: main_def)
    then show ?thesis by simp
  next
    case (Inr batches)
    with \<open>load_dataset c a = Inr data\<close> assms
    have "process_batches c a (enumerate 0 batches) (process_start fs) = (oc, s')"
      by (simp add: main_def)
    from process_batches_rows[OF this] show ?thesis by auto
  qed
qed



lemma records_of_append [simp]: "records_of (xs @ ys) = records_of xs @ records_of ys"
  by (simp add: records_of_def)



section \<open>The claims\<close>



text \<open>
  Claim C7. Within one run the header is written exactly once, before the first row, and
  never again: what the run adds to the file is nothing when no row was emitted, and else
  one header line followed by the records of the rows; \<open>header_written\<close> is set exactly
  when a row was emitted. What the file held before stays in front: a run on the file of a
  prior run appends to it, so that the file then holds a second header.
\<close>

theorem header_once:
  assumes "main c a (process_start fs) = (oc, s')"
  shows "file_lines (files s') (save_path a) =
           file_lines fs (save_path a) @
           (case results s' of
              [] \<Rightarrow> []
            | row # rest \<Rightarrow> Header (map fst row) # map (\<lambda>r. Record (map snd r)) (results s'))
     \<and> header_written s' = (results s' \<noteq> [])"
  using main_rows[OF assms] by (simp add: written_False)

text \<open>Two runs of the small configuration, the second on the file the first one left.\<close>

theorem header_once_witness:
  "file_lines
     (files (snd (main example_collaborators example_args
        (process_start (files (snd (main example_collaborators example_args
           (process_start Map.empty)))))))) ''results_sampleqa.csv'' =
   [Header [''id'', ''question'', ''generated_answer'', ''uncertainty'', ''correct'',
            ''similarity_score''],
    Record [PyInt 0, PyStr ''q0'', PyStr ''yes'', PyFloat 1, PyBool True, PyStr ''NA''],
    Record [PyInt 1, PyStr ''q1'', PyStr ''yes'', PyFloat 1, PyBool True, PyStr ''NA''],
    Record [PyInt 2, PyStr ''q2'', PyStr ''yes'', PyFloat 1, PyBool True, PyStr ''NA''],
    Header [''id'', ''question'', ''generated_answer'', ''uncertainty'', ''correct'',
            ''similarity_score''],
    Record [PyInt 0, PyStr ''q0'', PyStr ''yes'', PyFloat 1, PyBool True, PyStr ''NA''],
    Record [PyInt 1, PyStr ''q1'', PyStr ''yes'', PyFloat 1, PyBool True, PyStr ''NA''],
    Record [PyInt 2, PyStr ''q2'', PyStr ''yes'', PyFloat 1, PyBool True, PyStr ''NA'']]"
proof -
  let ?fs1 = "files (snd (main example_collaborators example_args (process_start Map.empty)))"
  let ?r2 = "main example_collaborators example_args (process_start ?fs1)"
  let ?row = "\<lambda>i q. [(''id'', PyInt i), (''question'', PyStr q), (''generated_answer'', PyStr ''yes''),
     (''uncertainty'', PyFloat 1), (''correct'', PyBool True), (''similarity_score'', PyStr ''NA'')]"
  have path: "save_path example_args = ''results_sampleqa.csv''"
    by (simp add: save_path_def example_args_def)
  have before: "file_lines ?fs1 ''results_sampleqa.csv'' =
     [Header [''id'', ''question'', ''generated_answer'', ''uncertainty'', ''correct'',
            ''similarity_score''],
      Record [PyInt 0, PyStr ''q0'', PyStr ''yes'', PyFloat 1, PyBool True, PyStr ''NA''],
      Record [PyInt 1, PyStr ''q1'', PyStr ''yes'', PyFloat 1, PyBool True, PyStr ''NA''],
      Record [PyInt 2, PyStr ''q2'', PyStr ''yes'', PyFloat 1, PyBool True, PyStr ''NA'']]"
    by code_simp
  have rows: "results (snd ?r2) = [?row 0 ''q0'', ?row 1 ''q1'', ?row 2 ''q2'']"
    by code_simp
  have run: "?r2 = (fst ?r2, snd ?r2)" by simp
  from header_once[OF run] show ?thesis
    by (simp add: path before rows)
qed



end
